theory Spec2Isabelle
  imports Complex_Main "HOL-Library.Multiset" "HOL-Library.Word"
begin

section \<open>Numbers\<close>

text \<open>
  The program is TypeScript; every \<^verbatim>\<open>number\<close> is modelled as a \<^typ>\<open>real\<close>.
  Rounding, infinities and NaN of IEEE doubles are outside this model: all results
  below are about the exact arithmetic the source text denotes. The non-deterministic
  inputs of the program (\<^verbatim>\<open>performance.now()\<close>, \<^verbatim>\<open>Math.random()\<close>, the analyser's
  byte frequency data) are explicit arguments of the functions that read them.
\<close>

section \<open>utils.ts\<close>

definition easeOutCubic :: "real \<Rightarrow> real" where
  "easeOutCubic t = 1 - (1 - t) ^ 3"

definition clamp :: "real \<Rightarrow> real \<Rightarrow> real \<Rightarrow> real" where
  "clamp v lo hi = min (max v lo) hi"

section \<open>AudioPipeline\<close>

datatype AudioMode = Microphone | Assistant | Test | Stopped

text \<open>
  The fields of the class that the volume path reads or writes. The two analyser
  nodes are kept as booleans (node present or \<^verbatim>\<open>null\<close>); the bytes a present
  analyser delivers on a tick are an argument of \<open>getVolume\<close>.
\<close>

record AudioPipeline =
  analyser :: bool
  assistantAnalyser :: bool
  isCalibrating :: bool
  calibrationSamples :: "real list"
  calibrationStartTime :: real
  baselineNoise :: real
  dynamicSensitivityThreshold :: real
  dynamicLoudThreshold :: real
  dynamicVeryLoudThreshold :: real
  adaptiveGain :: real
  volumeHistory :: "real list"

definition CALIBRATION_DURATION :: real where
  "CALIBRATION_DURATION = 1000"

definition VOLUME_HISTORY_SIZE :: nat where
  "VOLUME_HISTORY_SIZE = 100"

text \<open>The field initialisers of the class.\<close>

definition new_AudioPipeline :: AudioPipeline where
  "new_AudioPipeline =
     \<lparr> analyser = False, assistantAnalyser = False, isCalibrating = False,
       calibrationSamples = [], calibrationStartTime = 0,
       baselineNoise = 2 / 100, dynamicSensitivityThreshold = 8 / 100,
       dynamicLoudThreshold = 4 / 10, dynamicVeryLoudThreshold = 7 / 10,
       adaptiveGain = 1, volumeHistory = [] \<rparr>"

definition startCalibration :: "AudioPipeline \<Rightarrow> real \<Rightarrow> AudioPipeline" where
  "startCalibration s now =
     s\<lparr> isCalibrating := True, calibrationSamples := [], calibrationStartTime := now \<rparr>"

text \<open>
  \<open>processCalibration s volume now\<close>: \<open>now\<close> is the value of \<^verbatim>\<open>performance.now()\<close>.
  The sample is pushed before the window test, so the list that is sorted is never
  empty and both indices are in range (lemma \<open>percentile_index_in_range\<close>). The
  in-place \<^verbatim>\<open>sort((a, b) => a - b)\<close> is the ascending \<^const>\<open>sort\<close>. The
  \<^verbatim>\<open>onCalibrated\<close> notification and the console output are not modelled.
\<close>

definition processCalibration :: "AudioPipeline \<Rightarrow> real \<Rightarrow> real \<Rightarrow> bool \<times> AudioPipeline" where
  "processCalibration s volume now =
     (if \<not> isCalibrating s then (False, s)
      else
        let samples = calibrationSamples s @ [volume];
            elapsed = now - calibrationStartTime s
        in if elapsed \<ge> CALIBRATION_DURATION then
             let sorted_samples = sort samples;
                 median = sorted_samples ! (length sorted_samples div 2);
                 p90 = sorted_samples ! nat \<lfloor>real (length sorted_samples) * (9 / 10)\<rfloor>;
                 baseline = max (1 / 100) median;
                 noiseRange = p90 - baseline;
                 gain = (if noiseRange > 5 / 100 then (8 / 10) / noiseRange else 2)
             in (True,
                 s\<lparr> calibrationSamples := sorted_samples,
                    baselineNoise := baseline,
                    dynamicSensitivityThreshold := baseline + 3 / 100,
                    dynamicLoudThreshold := baseline + 15 / 100,
                    dynamicVeryLoudThreshold := baseline + 35 / 100,
                    adaptiveGain := max (1 / 2) (min gain 4),
                    isCalibrating := False \<rparr>)
           else (False, s\<lparr> calibrationSamples := samples \<rparr>))"

text \<open>
  \<open>processVolumeAdaptively\<close>: \<^verbatim>\<open>push\<close> then \<^verbatim>\<open>shift\<close> when the length exceeds
  \<open>VOLUME_HISTORY_SIZE\<close>; \<^verbatim>\<open>slice(-50)\<close> is the last 50 entries; \<^verbatim>\<open>reduce\<close> is a
  left fold from 0. The adjusted volume uses the gain before this call's adaptation.
\<close>

definition processVolumeAdaptively :: "AudioPipeline \<Rightarrow> real \<Rightarrow> real \<times> AudioPipeline" where
  "processVolumeAdaptively s rawVolume =
     (let pushed = volumeHistory s @ [rawVolume];
          history = (if length pushed > VOLUME_HISTORY_SIZE then tl pushed else pushed);
          adjustedVolume = max 0 (rawVolume - baselineNoise s) * adaptiveGain s;
          gain =
            (if length history \<ge> 50 \<and> \<not> isCalibrating s then
               let recentVolumes = drop (length history - 50) history;
                   avgRecent = foldl (\<lambda>a b. a + b) 0 recentVolumes / real (length recentVolumes);
                   targetRange = 3 / 10
               in if avgRecent > 5 / 100 then
                    let gainAdjustment = targetRange / avgRecent;
                        nudged = adaptiveGain s + (gainAdjustment - adaptiveGain s) * (1 / 1000)
                    in max (1 / 2) (min nudged 4)
                  else adaptiveGain s
             else adaptiveGain s)
      in (min adjustedVolume 1, s\<lparr> volumeHistory := history, adaptiveGain := gain \<rparr>))"

text \<open>
  The raw volume of a tick: the mean of the analyser's bytes, scaled by 255 and capped
  at 1. \<open>frequencyBinCount\<close> is half the FFT size, so the array is never empty in
  the program.
\<close>

definition rawVolumeOf :: "8 word list \<Rightarrow> real" where
  "rawVolumeOf dataArray =
     (let bufferLength = length dataArray;
          sum = foldl (\<lambda>acc b. acc + real (unat b)) 0 dataArray
      in min (sum / real bufferLength / 255) 1)"

text \<open>
  \<open>getVolume s mode dataArray now rnd\<close> returns the volume and the new state.
  \<open>now\<close> is \<^verbatim>\<open>performance.now()\<close> (read once on either path), \<open>rnd\<close> is
  \<^verbatim>\<open>Math.random()\<close> (test mode only).
\<close>

definition getVolume ::
  "AudioPipeline \<Rightarrow> AudioMode \<Rightarrow> 8 word list \<Rightarrow> real \<Rightarrow> real \<Rightarrow> real \<times> AudioPipeline" where
  "getVolume s mode dataArray now rnd =
     (if mode = Test then (\<bar>sin (now * (5 / 1000))\<bar> * (3 / 10) + rnd * (1 / 10), s)
      else
        let analyserToUse = (if mode = Assistant then assistantAnalyser s else analyser s)
        in if \<not> analyserToUse then (0, s)
           else
             let rawVolume = rawVolumeOf dataArray;
                 (calibrationComplete, s1) =
                    (if isCalibrating s then processCalibration s rawVolume now else (True, s))
             in if \<not> calibrationComplete then (0, s1)
                else if mode = Assistant then (min (rawVolume * 2) 1, s1)
                else processVolumeAdaptively s1 rawVolume)"

text \<open>
  \<open>cleanup\<close> as far as the modelled fields go, and the two initialisers on their
  success path (a failing initialiser has run \<open>cleanup\<close> only).
\<close>

definition cleanup :: "AudioPipeline \<Rightarrow> AudioPipeline" where
  "cleanup s =
     s\<lparr> isCalibrating := False, calibrationSamples := [],
        analyser := False, assistantAnalyser := False,
        volumeHistory := [], adaptiveGain := 1, baselineNoise := 2 / 100,
        dynamicSensitivityThreshold := 8 / 100,
        dynamicLoudThreshold := 4 / 10, dynamicVeryLoudThreshold := 7 / 10 \<rparr>"

definition initMicrophone :: "AudioPipeline \<Rightarrow> real \<Rightarrow> AudioPipeline" where
  "initMicrophone s now = startCalibration ((cleanup s)\<lparr> analyser := True \<rparr>) now"

definition initAssistant :: "AudioPipeline \<Rightarrow> AudioPipeline" where
  "initAssistant s = (cleanup s)\<lparr> assistantAnalyser := True \<rparr>"

text \<open>The calls a host can make on a pipeline, and a pipeline's life as a list of them.\<close>

datatype pipeline_call =
    InitMicrophone real
  | InitAssistant
  | Cleanup
  | GetVolume AudioMode "8 word list" real real

fun pipeline_step :: "AudioPipeline \<Rightarrow> pipeline_call \<Rightarrow> AudioPipeline" where
  "pipeline_step s (InitMicrophone now) = initMicrophone s now"
| "pipeline_step s InitAssistant = initAssistant s"
| "pipeline_step s Cleanup = cleanup s"
| "pipeline_step s (GetVolume mode dataArray now rnd) = snd (getVolume s mode dataArray now rnd)"

definition pipeline_run :: "pipeline_call list \<Rightarrow> AudioPipeline" where
  "pipeline_run calls = foldl pipeline_step new_AudioPipeline calls"

section \<open>ForceSystem (forces.ts)\<close>

record InternalForce =
  angle :: real
  strength :: real
  life :: real
  decay :: real
  speed :: real
  distance :: real
  maxDistance :: real

text \<open>
  The private fields of the class. \<open>fs_sensitivity\<close> and \<open>fs_fadeMultiplier\<close> are the
  fields \<^verbatim>\<open>sensitivity\<close> and \<^verbatim>\<open>fadeMultiplier\<close>; the prefix keeps them apart from the
  field of the same name of \<open>VoiceOrb\<close>.
\<close>

record ForceSystem =
  forces :: "InternalForce list"
  fs_sensitivity :: real
  fs_fadeMultiplier :: real

definition new_ForceSystem :: "real \<Rightarrow> ForceSystem" where
  "new_ForceSystem sens = \<lparr> forces = [], fs_sensitivity = sens, fs_fadeMultiplier = 1 \<rparr>"

text \<open>
  The values \<^verbatim>\<open>Math.random()\<close> returns during one \<open>update\<close>, in the order of the
  calls: the creation test, then the angle, the decay and the speed of the new force.
\<close>

record draws =
  r_create :: real
  r_angle :: real
  r_decay :: real
  r_speed :: real

definition newForce :: "real \<Rightarrow> real \<Rightarrow> draws \<Rightarrow> InternalForce" where
  "newForce smoothedVolume threshold d =
     \<lparr> angle = r_angle d * pi * 2,
       strength = 10 + (smoothedVolume - threshold) * 50,
       life = 1,
       decay = 8 / 1000 + r_decay d * (12 / 1000),
       speed = 3 / 10 + r_speed d * 1,
       distance = 0,
       maxDistance = 20 + (smoothedVolume - threshold) * 60 \<rparr>"

text \<open>
  The body of the \<^verbatim>\<open>forEach\<close> that ages every force. \<open>threshold\<close> is the
  parameter \<^verbatim>\<open>dynamicSensitivityThreshold\<close> of \<open>update\<close>.
\<close>

definition decayForce :: "real \<Rightarrow> real \<Rightarrow> real \<Rightarrow> InternalForce \<Rightarrow> InternalForce" where
  "decayForce smoothedVolume threshold fade f =
     (let baseDecay = (if smoothedVolume < threshold then 5 / 2 else 1);
          fadeDecay = (1 - fade) * 2
      in f\<lparr> life := life f - decay f * (baseDecay + fadeDecay),
            distance := min (distance f + speed f) (maxDistance f),
            angle := angle f + 5 / 1000 \<rparr>)"

definition update :: "ForceSystem \<Rightarrow> real \<Rightarrow> real \<Rightarrow> draws \<Rightarrow> ForceSystem" where
  "update fs smoothedVolume threshold d =
     (let live = filter (\<lambda>force. life force > 0) (forces fs);
          spawned =
            (if smoothedVolume > threshold then
               let creationRate = (smoothedVolume - threshold) * (1 / 2)
               in if r_create d < creationRate
                  then live @ [newForce smoothedVolume threshold d]
                  else live
             else live)
      in fs\<lparr> forces :=
              map (decayForce smoothedVolume threshold (fs_fadeMultiplier fs))
                spawned \<rparr>)"

text \<open>One force's term of the sum in \<open>getInfluenceAt\<close>, at the queried angle \<open>a\<close>.\<close>

definition influenceOf :: "real \<Rightarrow> InternalForce \<Rightarrow> real" where
  "influenceOf a force =
     (let angleDiff0 = \<bar>a - angle force\<bar>;
          angleDiff = (if angleDiff0 > pi then pi * 2 - angleDiff0 else angleDiff0);
          angularFalloff = max 0 (1 - angleDiff / (pi * (4 / 10)));
          forceAmount = strength force * life force * angularFalloff;
          distanceEffect = sin ((distance force / maxDistance force) * pi)
      in forceAmount * distanceEffect)"

definition getInfluenceAt :: "ForceSystem \<Rightarrow> real \<Rightarrow> real" where
  "getInfluenceAt fs a =
     foldl (\<lambda>totalInfluence force. totalInfluence + influenceOf a force) 0 (forces fs)"

definition setFadeMultiplier :: "ForceSystem \<Rightarrow> real \<Rightarrow> ForceSystem" where
  "setFadeMultiplier fs fade = fs\<lparr> fs_fadeMultiplier := fade \<rparr>"

definition getActiveCount :: "ForceSystem \<Rightarrow> nat" where
  "getActiveCount fs = length (forces fs)"

definition clear :: "ForceSystem \<Rightarrow> ForceSystem" where
  "clear fs = fs\<lparr> forces := [] \<rparr>"

text \<open>The calls on a force system, and its life from the constructor on.\<close>

datatype force_call =
    Update real real draws
  | SetFadeMultiplier real
  | Clear

fun force_step :: "ForceSystem \<Rightarrow> force_call \<Rightarrow> ForceSystem" where
  "force_step fs (Update smoothedVolume threshold d) =
     update fs smoothedVolume threshold d"
| "force_step fs (SetFadeMultiplier fade) = setFadeMultiplier fs fade"
| "force_step fs Clear = clear fs"

definition force_run :: "real \<Rightarrow> force_call list \<Rightarrow> ForceSystem" where
  "force_run sens calls = foldl force_step (new_ForceSystem sens) calls"

text \<open>
  The contract of the inputs: \<^verbatim>\<open>Math.random()\<close> is in [0,1), and the fade multiplier
  that \<open>VoiceOrb.draw\<close> hands over has been clamped to [0,1].
\<close>

definition draws_in_range :: "draws \<Rightarrow> bool" where
  "draws_in_range d =
     (0 \<le> r_create d \<and> r_create d < 1 \<and> 0 \<le> r_angle d \<and> r_angle d < 1
      \<and> 0 \<le> r_decay d \<and> r_decay d < 1 \<and> 0 \<le> r_speed d \<and> r_speed d < 1)"

fun random_in_range :: "force_call \<Rightarrow> bool" where
  "random_in_range (Update smoothedVolume threshold d) = draws_in_range d"
| "random_in_range (SetFadeMultiplier fade) = True"
| "random_in_range Clear = True"

fun fade_in_range :: "force_call \<Rightarrow> bool" where
  "fade_in_range (SetFadeMultiplier fade) = (0 \<le> fade \<and> fade \<le> 1)"
| "fade_in_range (Update smoothedVolume threshold d) = True"
| "fade_in_range Clear = True"

section \<open>VoiceOrb: the volume part of \<open>draw\<close>\<close>

text \<open>The two options that the volume path of \<open>draw\<close> reads.\<close>

record VoiceOrbOptions =
  fadeOutMs :: real
  volumeLerpFactor :: real

definition DEFAULT_OPTIONS :: VoiceOrbOptions where
  "DEFAULT_OPTIONS = \<lparr> fadeOutMs = 1200, volumeLerpFactor = 12 / 100 \<rparr>"

record VoiceOrb =
  options :: VoiceOrbOptions
  smoothedVolume :: real
  targetVolume :: real
  lastAudioTime :: real
  fadeMultiplier :: real
  previousVolumeLevel :: real

definition new_VoiceOrb :: "VoiceOrbOptions \<Rightarrow> VoiceOrb" where
  "new_VoiceOrb opts =
     \<lparr> options = opts, smoothedVolume = 0, targetVolume = 0, lastAudioTime = 0,
       fadeMultiplier = 1, previousVolumeLevel = 0 \<rparr>"

text \<open>
  \<open>draw orb rawVolume sensitivity now1 now2\<close>, from the volume read to the update of
  \<open>previousVolumeLevel\<close>. \<open>rawVolume\<close> is what \<open>getVolume\<close> returned, \<open>sensitivity\<close>
  is \<^verbatim>\<open>thresholds.sensitivity\<close>, \<open>now1\<close> and \<open>now2\<close> are the two readings of
  \<^verbatim>\<open>performance.now()\<close>.
\<close>

definition draw :: "VoiceOrb \<Rightarrow> real \<Rightarrow> real \<Rightarrow> real \<Rightarrow> real \<Rightarrow> VoiceOrb" where
  "draw orb rawVolume sensitivity now1 now2 =
     (let lastAudio = (if rawVolume > sensitivity then now1 else lastAudioTime orb);
          timeSinceAudio = now2 - lastAudio;
          fadeProgress = min (timeSinceAudio / fadeOutMs (options orb)) 1;
          fadeFactor = 1 - easeOutCubic fadeProgress;
          target = rawVolume * fadeFactor;
          smoothed = smoothedVolume orb
                       + (target - smoothedVolume orb) * volumeLerpFactor (options orb);
          currentVolumeLevel = smoothed;
          fade = (if currentVolumeLevel < previousVolumeLevel orb
                  then fadeMultiplier orb * (96 / 100)
                  else fadeMultiplier orb + (1 - fadeMultiplier orb) * (15 / 100))
      in orb\<lparr> lastAudioTime := lastAudio,
              targetVolume := target,
              smoothedVolume := smoothed,
              fadeMultiplier := clamp fade 0 1,
              previousVolumeLevel := currentVolumeLevel \<rparr>)"

definition resetVisualState :: "VoiceOrb \<Rightarrow> VoiceOrb" where
  "resetVisualState orb =
     orb\<lparr> smoothedVolume := 0, targetVolume := 0, fadeMultiplier := 1,
          previousVolumeLevel := 0 \<rparr>"

definition setOptions :: "VoiceOrb \<Rightarrow> VoiceOrbOptions \<Rightarrow> VoiceOrb" where
  "setOptions orb newOptions = orb\<lparr> options := newOptions \<rparr>"

text \<open>
  An orb's life: animation ticks, \<open>stop\<close> (which resets the visual state) and option
  changes, from the constructor on.
\<close>

datatype orb_call =
    Draw real real real real
  | Stop
  | SetOptions VoiceOrbOptions

fun orb_step :: "VoiceOrb \<Rightarrow> orb_call \<Rightarrow> VoiceOrb" where
  "orb_step orb (Draw rawVolume sensitivity now1 now2) = draw orb rawVolume sensitivity now1 now2"
| "orb_step orb Stop = resetVisualState orb"
| "orb_step orb (SetOptions newOptions) = setOptions orb newOptions"

definition orb_run :: "VoiceOrbOptions \<Rightarrow> orb_call list \<Rightarrow> VoiceOrb" where
  "orb_run opts calls = foldl orb_step (new_VoiceOrb opts) calls"

section \<open>Invariants and example inputs\<close>

text \<open>The clamp range of the adaptive gain.\<close>

definition gain_ok :: "real \<Rightarrow> bool" where
  "gain_ok g = (1 / 2 \<le> g \<and> g \<le> 4)"

text \<open>What \<open>update\<close> guarantees about the geometry of every force it keeps.\<close>

definition force_shape :: "InternalForce \<Rightarrow> bool" where
  "force_shape f =
     (0 < strength f \<and> 0 \<le> speed f \<and> 0 \<le> distance f
      \<and> distance f \<le> maxDistance f \<and> 0 < maxDistance f)"

text \<open>What \<open>update\<close> guarantees about the life and the decay rate of every force it keeps.\<close>

definition aged_bounds :: "InternalForce \<Rightarrow> bool" where
  "aged_bounds f =
     (- (9 / 100) < life f \<and> life f \<le> 1 \<and> 0 \<le> decay f \<and> decay f < 2 / 100)"

definition fade_ok :: "ForceSystem \<Rightarrow> bool" where
  "fade_ok fs = (0 \<le> fs_fadeMultiplier fs \<and> fs_fadeMultiplier fs \<le> 1)"

text \<open>The state between two animation ticks of the orb.\<close>

definition orb_inv :: "VoiceOrb \<Rightarrow> bool" where
  "orb_inv orb =
     (previousVolumeLevel orb = smoothedVolume orb
      \<and> 0 \<le> fadeMultiplier orb \<and> fadeMultiplier orb \<le> 1)"

text \<open>
  A calibration window that holds 900 samples of 0.02 and 99 of 0.5, one sample short
  of the spec's second end-to-end scenario.
\<close>

definition scenario2_state :: AudioPipeline where
  "scenario2_state =
     (startCalibration new_AudioPipeline 0)
       \<lparr> calibrationSamples := replicate 900 (2 / 100) @ replicate 99 (1 / 2) \<rparr>"

text \<open>A calibration window that holds 999 samples of the one value \<open>v\<close>.\<close>

definition constant_window :: "real \<Rightarrow> AudioPipeline" where
  "constant_window v =
     (startCalibration new_AudioPipeline 0) \<lparr> calibrationSamples := replicate 999 v \<rparr>"

text \<open>
  A microphone session 20 ms into its calibration: two ticks, each with the byte 51
  (raw volume 0.2) in the analyser's one bin.
\<close>

definition calibrating_run :: "pipeline_call list" where
  "calibrating_run =
     [InitMicrophone 0, GetVolume Microphone [51] 10 0, GetVolume Microphone [51] 20 0]"

text \<open>
  The same session with a third tick 1000 ms after the start, the byte 255 (raw volume 1)
  in the bin: the tick that completes the calibration.
\<close>

definition completed_run :: "pipeline_call list" where
  "completed_run = calibrating_run @ [GetVolume Microphone [255] 1000 0]"

text \<open>
  Random draws that create a force (creation draw 0) at the angle \<open>0.9999 * 2 * pi\<close>,
  with decay rate 0.014 and speed 1.
\<close>

definition burst :: draws where
  "burst = \<lparr> r_create = 0, r_angle = 9999 / 10000, r_decay = 1 / 2, r_speed = 7 / 10 \<rparr>"

text \<open>One loud tick (smoothed volume 0.58 over the threshold 0.08) that creates a force.\<close>

definition wrap_calls :: "force_call list" where
  "wrap_calls = [Update (58 / 100) (8 / 100) burst]"

text \<open>The same loud tick followed by 29 silent ticks, the fade multiplier left at 1.\<close>

definition quiet_calls :: "force_call list" where
  "quiet_calls = Update (58 / 100) (8 / 100) burst # replicate 29 (Update 0 (8 / 100) burst)"

text \<open>An orb after one tick at full volume, and a fresh orb.\<close>

definition falling_calls :: "orb_call list" where
  "falling_calls = [Draw 1 (8 / 100) 0 0]"

definition rising_calls :: "orb_call list" where
  "rising_calls = []"

section \<open>Adaptive volume processing\<close>

lemma byte_nonneg: "(0::real) \<le> real (unat (b :: 8 word))"
  using of_nat_0_le_iff [of "unat b", where 'a = real] by (simp del: of_nat_0_le_iff)

lemma rawVolumeOf_sum_nonneg:
  "0 \<le> acc \<Longrightarrow> 0 \<le> foldl (\<lambda>acc b. acc + real (unat b)) acc (xs :: 8 word list)"
proof (induction xs arbitrary: acc)
  case Nil
  then show ?case by simp
next
  case (Cons b xs)
  have "0 \<le> acc + real (unat b)"
    using Cons.prems byte_nonneg [of b] by linarith
  from Cons.IH [OF this] show ?case by simp
qed

lemma rawVolumeOf_range: "0 \<le> rawVolumeOf dataArray \<and> rawVolumeOf dataArray \<le> 1"
  using rawVolumeOf_sum_nonneg [of 0 dataArray]
  by (simp add: rawVolumeOf_def Let_def)

lemma rawVolumeOf_255: "rawVolumeOf [255] = 1"
  by (simp add: rawVolumeOf_def)

lemma rawVolumeOf_51: "rawVolumeOf [51] = 1 / 5"
  by (simp add: rawVolumeOf_def)

text \<open>
  C1. For every raw volume in [0,1] and every state with a nonnegative baseline and
  a gain in [0.5, 4.0], the volume that \<open>processVolumeAdaptively\<close> returns lies in
  [0,1].
\<close>

theorem processVolumeAdaptively_output_range:
  assumes "0 \<le> rawVolume" and "rawVolume \<le> 1"
    and "0 \<le> baselineNoise s"
    and "1 / 2 \<le> adaptiveGain s" and "adaptiveGain s \<le> 4"
  shows "0 \<le> fst (processVolumeAdaptively s rawVolume)
       \<and> fst (processVolumeAdaptively s rawVolume) \<le> 1"
proof -
  have "0 \<le> max 0 (rawVolume - baselineNoise s) * adaptiveGain s"
    using assms(4) by (intro mult_nonneg_nonneg) simp_all
  then show ?thesis
    by (simp add: processVolumeAdaptively_def Let_def)
qed

theorem processVolumeAdaptively_output_range_witness:
  "(0::real) \<le> 1 / 2 \<and> (1 / 2 :: real) \<le> 1
   \<and> 0 \<le> baselineNoise new_AudioPipeline
   \<and> 1 / 2 \<le> adaptiveGain new_AudioPipeline \<and> adaptiveGain new_AudioPipeline \<le> 4
   \<and> 0 \<le> fst (processVolumeAdaptively new_AudioPipeline (1 / 2))
   \<and> fst (processVolumeAdaptively new_AudioPipeline (1 / 2)) \<le> 1"
  using processVolumeAdaptively_output_range [of "1 / 2" new_AudioPipeline]
  by (simp add: new_AudioPipeline_def)

subsection \<open>The gain stays clamped\<close>

lemma gain_ok_clamp [simp]: "gain_ok (max (1 / 2) (min x 4))"
  by (simp add: gain_ok_def)

lemma processCalibration_gain:
  "gain_ok (adaptiveGain s) \<Longrightarrow> gain_ok (adaptiveGain (snd (processCalibration s v now)))"
  by (simp add: processCalibration_def Let_def)

lemma processVolumeAdaptively_gain:
  "gain_ok (adaptiveGain s) \<Longrightarrow> gain_ok (adaptiveGain (snd (processVolumeAdaptively s v)))"
  by (simp add: processVolumeAdaptively_def Let_def)

lemma getVolume_gain:
  "gain_ok (adaptiveGain s) \<Longrightarrow> gain_ok (adaptiveGain (snd (getVolume s mode d now rnd)))"
  by (simp add: getVolume_def Let_def split_beta processCalibration_gain
      processVolumeAdaptively_gain)

lemma pipeline_step_gain:
  "gain_ok (adaptiveGain s) \<Longrightarrow> gain_ok (adaptiveGain (pipeline_step s c))"
  by (cases c)
    (simp_all add: getVolume_gain,
     simp_all add: gain_ok_def initMicrophone_def initAssistant_def cleanup_def
       startCalibration_def)

lemma foldl_gain:
  "gain_ok (adaptiveGain s) \<Longrightarrow> gain_ok (adaptiveGain (foldl pipeline_step s calls))"
  by (induction calls arbitrary: s) (simp_all add: pipeline_step_gain)

text \<open>
  C2. Starting from the default gain 1.0, after any sequence of calls on the pipeline
  (ticks in any mode with any analyser bytes and clock readings, initialisations and
  clean-ups) the adaptive gain lies in [0.5, 4.0]. Every prefix of a sequence is a
  sequence, so this holds after every \<open>processVolumeAdaptively\<close> call and after every
  calibration completion.
\<close>

theorem adaptiveGain_clamped:
  "1 / 2 \<le> adaptiveGain (pipeline_run calls) \<and> adaptiveGain (pipeline_run calls) \<le> 4"
proof -
  have "gain_ok (adaptiveGain new_AudioPipeline)"
    by (simp add: gain_ok_def new_AudioPipeline_def)
  then have "gain_ok (adaptiveGain (pipeline_run calls))"
    unfolding pipeline_run_def by (rule foldl_gain)
  then show ?thesis by (simp add: gain_ok_def)
qed

section \<open>Calibration\<close>

text \<open>The window is never empty when it is sorted, so both order statistics exist.\<close>

lemma percentile_index_in_range:
  "0 < n \<Longrightarrow> n div 2 < n \<and> nat \<lfloor>real n * (9 / 10)\<rfloor> < n"
proof
  assume n: "0 < n"
  show "n div 2 < n" using n by simp
  have "real n * (9 / 10) < real n" using n by simp
  then have "\<lfloor>real n * (9 / 10)\<rfloor> < int n" by linarith
  then show "nat \<lfloor>real n * (9 / 10)\<rfloor> < n" by linarith
qed

lemma p90_index: "nat \<lfloor>real n * (9 / 10)\<rfloor> = (n * 9) div 10"
proof -
  have "real n * (9 / 10) = real (n * 9) / real 10" by simp
  also have "\<lfloor>\<dots>\<rfloor> = int ((n * 9) div 10)"
    by (simp only: floor_divide_of_nat_eq)
  finally show ?thesis by simp
qed

text \<open>What a completing call computes, with the 90th percentile index as a quotient.\<close>

lemma processCalibration_completing:
  assumes "isCalibrating s" and "CALIBRATION_DURATION \<le> now - calibrationStartTime s"
  shows "processCalibration s v now =
     (let sorted_samples = sort (calibrationSamples s @ [v]);
          median = sorted_samples ! (length sorted_samples div 2);
          p90 = sorted_samples ! ((length sorted_samples * 9) div 10);
          baseline = max (1 / 100) median;
          noiseRange = p90 - baseline;
          gain = (if noiseRange > 5 / 100 then (8 / 10) / noiseRange else 2)
      in (True,
          s\<lparr> calibrationSamples := sorted_samples,
             baselineNoise := baseline,
             dynamicSensitivityThreshold := baseline + 3 / 100,
             dynamicLoudThreshold := baseline + 15 / 100,
             dynamicVeryLoudThreshold := baseline + 35 / 100,
             adaptiveGain := max (1 / 2) (min gain 4),
             isCalibrating := False \<rparr>))"
  unfolding processCalibration_def p90_index using assms
  by (simp only: if_True if_False not_True_eq_False simp_thms Let_def)

text \<open>The same, read off a known sorted window.\<close>

lemma processCalibration_complete:
  assumes "isCalibrating s" and "CALIBRATION_DURATION \<le> now - calibrationStartTime s"
    and "sort (calibrationSamples s @ [v]) = xs"
    and "xs ! (length xs div 2) = m" and "xs ! ((length xs * 9) div 10) = p"
  shows "fst (processCalibration s v now) = True"
    and "baselineNoise (snd (processCalibration s v now)) = max (1 / 100) m"
    and "adaptiveGain (snd (processCalibration s v now)) =
           max (1 / 2)
             (min (if p - max (1 / 100) m > 5 / 100 then (8 / 10) / (p - max (1 / 100) m) else 2) 4)"
    and "isCalibrating (snd (processCalibration s v now)) = False"
  unfolding processCalibration_completing [OF assms(1,2)] Let_def assms(3,4,5)
  by (simp_all only: fst_conv snd_conv) simp_all

subsection \<open>Identical samples\<close>

lemma constant_list: "set xs \<subseteq> {v} \<Longrightarrow> xs = replicate (length xs) v"
  by (induction xs) simp_all

lemma sort_constant: "set xs \<subseteq> {v} \<Longrightarrow> sort xs = replicate (length xs) (v::real)"
proof -
  assume "set xs \<subseteq> {v}"
  then have "xs = replicate (length xs) v"
    by (rule constant_list)
  moreover have "sort (replicate (length xs) v) = replicate (length xs) v"
    by (intro sorted_sort_id) (simp add: sorted_replicate)
  ultimately show ?thesis by simp
qed

lemma identical_samples_calibration:
  assumes "isCalibrating s" and "CALIBRATION_DURATION \<le> now - calibrationStartTime s"
    and "set (calibrationSamples s) \<subseteq> {v}"
  shows "fst (processCalibration s v now)"
    and "baselineNoise (snd (processCalibration s v now)) = max (1 / 100) v"
    and "adaptiveGain (snd (processCalibration s v now)) = 2"
proof -
  let ?n = "length (calibrationSamples s @ [v])"
  have srt: "sort (calibrationSamples s @ [v]) = replicate ?n v"
    using assms(3) by (intro sort_constant) auto
  have n: "0 < ?n" by simp
  have i1: "replicate ?n v ! (length (replicate ?n v) div 2) = v"
    using n by (intro nth_replicate) simp
  have i2: "replicate ?n v ! ((length (replicate ?n v) * 9) div 10) = v"
    using n by (intro nth_replicate) simp
  note c = processCalibration_complete [OF assms(1,2) srt i1 i2]
  have "v - max (1 / 100) v \<le> 0" by simp
  then have small: "\<not> v - max (1 / 100) v > 5 / 100" by linarith
  show "fst (processCalibration s v now)" using c(1) by simp
  show "baselineNoise (snd (processCalibration s v now)) = max (1 / 100) v" by (rule c(2))
  show "adaptiveGain (snd (processCalibration s v now)) = 2" using c(3) small by simp
qed

lemma constant_window_ready:
  "isCalibrating (constant_window v)"
  "CALIBRATION_DURATION \<le> 1000 - calibrationStartTime (constant_window v)"
  "set (calibrationSamples (constant_window v)) \<subseteq> {v}"
  by (simp_all add: constant_window_def startCalibration_def CALIBRATION_DURATION_def)

text \<open>
  C4, as the code has it. A calibration whose window holds only samples of one value
  \<open>v\<close> completes with the baseline \<open>max 0.01 v\<close> (which is \<open>v\<close> exactly when \<open>v\<close> is
  at least 0.01) and with the gain 2.0: the noise range \<open>v - baseline\<close> is never above
  0.05.
\<close>

theorem calibration_identical_samples:
  assumes "isCalibrating s" and "CALIBRATION_DURATION \<le> now - calibrationStartTime s"
    and "set (calibrationSamples s) \<subseteq> {v}"
  shows "fst (processCalibration s v now)
       \<and> baselineNoise (snd (processCalibration s v now)) = max (1 / 100) v
       \<and> (1 / 100 \<le> v \<longrightarrow> baselineNoise (snd (processCalibration s v now)) = v)
       \<and> adaptiveGain (snd (processCalibration s v now)) = 2"
  using identical_samples_calibration [OF assms] by simp

theorem calibration_identical_samples_witness:
  "isCalibrating (constant_window (1 / 2))
   \<and> CALIBRATION_DURATION \<le> 1000 - calibrationStartTime (constant_window (1 / 2))
   \<and> set (calibrationSamples (constant_window (1 / 2))) \<subseteq> {1 / 2}
   \<and> (1 / 100 :: real) \<le> 1 / 2
   \<and> fst (processCalibration (constant_window (1 / 2)) (1 / 2) 1000)
   \<and> baselineNoise (snd (processCalibration (constant_window (1 / 2)) (1 / 2) 1000)) = 1 / 2
   \<and> adaptiveGain (snd (processCalibration (constant_window (1 / 2)) (1 / 2) 1000)) = 2"
  using calibration_identical_samples [OF constant_window_ready, of "1 / 2"]
    constant_window_ready [of "1 / 2"]
  by simp

text \<open>
  C4 as stated fails below 0.01: a window of 1000 samples of the value 0 completes
  with the baseline 0.01, not 0.
\<close>

theorem calibration_identical_samples_counterexample:
  "baselineNoise (snd (processCalibration (constant_window 0) 0 1000)) = 1 / 100
   \<and> baselineNoise (snd (processCalibration (constant_window 0) 0 1000)) \<noteq> 0"
  using identical_samples_calibration(2) [OF constant_window_ready, of 0] by simp

subsection \<open>The second end-to-end scenario\<close>

lemma scenario2_sorted:
  assumes "mset xs = mset (replicate 900 (2 / 100 :: real) @ replicate 100 (1 / 2))"
  shows "sort xs = replicate 900 (2 / 100) @ replicate 100 (1 / 2)"
proof (rule properties_for_sort)
  show "mset (replicate 900 (2 / 100 :: real) @ replicate 100 (1 / 2)) = mset xs"
    using assms by simp
  show "sorted (replicate 900 (2 / 100 :: real) @ replicate 100 (1 / 2))"
    by (simp add: sorted_append sorted_replicate)
qed

lemma scenario2_calibration:
  assumes "isCalibrating s" and "CALIBRATION_DURATION \<le> now - calibrationStartTime s"
    and "mset (calibrationSamples s @ [v])
           = mset (replicate 900 (2 / 100 :: real) @ replicate 100 (1 / 2))"
  shows "fst (processCalibration s v now)"
    and "baselineNoise (snd (processCalibration s v now)) = 2 / 100"
    and "adaptiveGain (snd (processCalibration s v now)) = 5 / 3"
proof -
  let ?xs = "replicate 900 (2 / 100 :: real) @ replicate 100 (1 / 2)"
  have srt: "sort (calibrationSamples s @ [v]) = ?xs"
    using assms(3) by (rule scenario2_sorted)
  have i1: "?xs ! (length ?xs div 2) = 2 / 100"
    by (simp add: nth_append)
  have i2: "?xs ! ((length ?xs * 9) div 10) = 1 / 2"
    by (simp add: nth_append)
  note c = processCalibration_complete [OF assms(1,2) srt i1 i2]
  show "fst (processCalibration s v now)" using c(1) by simp
  show "baselineNoise (snd (processCalibration s v now)) = 2 / 100" using c(2) by simp
  show "adaptiveGain (snd (processCalibration s v now)) = 5 / 3" using c(3) by simp
qed

lemma scenario2_state_ready:
  "isCalibrating scenario2_state"
  "CALIBRATION_DURATION \<le> 1000 - calibrationStartTime scenario2_state"
  "mset (calibrationSamples scenario2_state @ [1 / 2])
     = mset (replicate 900 (2 / 100 :: real) @ replicate 100 (1 / 2))"
  using replicate_mset_Suc [of 99 "1 / 2 :: real"]
  by (simp_all add: scenario2_state_def startCalibration_def CALIBRATION_DURATION_def)

text \<open>
  C3, as the code has it. A calibration that completes on the sample multiset
  900 times 0.02 and 100 times 0.5 yields the baseline 0.02 and the gain
  \<open>0.8 / 0.48 = 5/3\<close>: the median is 0.02, the 90th percentile is the sample at index
  900, which is 0.5, so the noise range is 0.48 and the raw gain lies inside
  [0.5, 4.0]; the clamp changes nothing.
\<close>

theorem calibration_scenario2:
  assumes "isCalibrating s" and "CALIBRATION_DURATION \<le> now - calibrationStartTime s"
    and "mset (calibrationSamples s @ [v])
           = mset (replicate 900 (2 / 100 :: real) @ replicate 100 (1 / 2))"
  shows "fst (processCalibration s v now)
       \<and> baselineNoise (snd (processCalibration s v now)) = 2 / 100
       \<and> adaptiveGain (snd (processCalibration s v now)) = 5 / 3"
  using scenario2_calibration [OF assms] by simp

theorem calibration_scenario2_witness:
  "isCalibrating scenario2_state
   \<and> CALIBRATION_DURATION \<le> 1000 - calibrationStartTime scenario2_state
   \<and> mset (calibrationSamples scenario2_state @ [1 / 2])
       = mset (replicate 900 (2 / 100 :: real) @ replicate 100 (1 / 2))
   \<and> fst (processCalibration scenario2_state (1 / 2) 1000)
   \<and> baselineNoise (snd (processCalibration scenario2_state (1 / 2) 1000)) = 2 / 100
   \<and> adaptiveGain (snd (processCalibration scenario2_state (1 / 2) 1000)) = 5 / 3"
  using calibration_scenario2 [OF scenario2_state_ready] scenario2_state_ready
  by blast

text \<open>
  C3 as stated fails: on that multiset the gain is 5/3, not 0.5; the raw gain
  \<open>0.8 / noiseRange\<close> does not fall below 0.5 and the lower clamp does not engage.
\<close>

theorem calibration_scenario2_counterexample:
  "adaptiveGain (snd (processCalibration scenario2_state (1 / 2) 1000)) = 5 / 3
   \<and> adaptiveGain (snd (processCalibration scenario2_state (1 / 2) 1000)) \<noteq> 1 / 2"
  using scenario2_calibration(3) [OF scenario2_state_ready] by simp

section \<open>Silence while calibrating\<close>

lemma processCalibration_in_window:
  assumes "isCalibrating s" and "now - calibrationStartTime s < CALIBRATION_DURATION"
  shows "processCalibration s v now = (False, s\<lparr> calibrationSamples := calibrationSamples s @ [v] \<rparr>)"
  using assms by (simp add: processCalibration_def Let_def)

lemma processCalibration_True:
  assumes "fst (processCalibration s v now)"
  shows "CALIBRATION_DURATION \<le> now - calibrationStartTime s
       \<and> \<not> isCalibrating (snd (processCalibration s v now))"
proof (cases "isCalibrating s \<and> CALIBRATION_DURATION \<le> now - calibrationStartTime s")
  case True
  then show ?thesis
    by (simp add: processCalibration_completing Let_def)
next
  case False
  then have "\<not> fst (processCalibration s v now)"
    by (auto simp: processCalibration_def Let_def)
  with assms show ?thesis by simp
qed

lemma processVolumeAdaptively_isCalibrating:
  "isCalibrating (snd (processVolumeAdaptively s v)) = isCalibrating s"
  by (simp add: processVolumeAdaptively_def Let_def)

lemma getVolume_in_window:
  assumes "isCalibrating s" and "mode \<noteq> Test"
    and "now - calibrationStartTime s < CALIBRATION_DURATION"
  shows "fst (getVolume s mode d now rnd) = 0 \<and> isCalibrating (snd (getVolume s mode d now rnd))"
  using assms by (simp add: getVolume_def Let_def processCalibration_in_window)

lemma getVolume_nonzero:
  assumes "isCalibrating s" and "mode \<noteq> Test" and "fst (getVolume s mode d now rnd) \<noteq> 0"
  shows "CALIBRATION_DURATION \<le> now - calibrationStartTime s
       \<and> \<not> isCalibrating (snd (getVolume s mode d now rnd))"
proof (cases "(if mode = Assistant then assistantAnalyser s else analyser s)
               \<and> fst (processCalibration s (rawVolumeOf d) now)")
  case True
  then have "fst (processCalibration s (rawVolumeOf d) now)" by simp
  from processCalibration_True [OF this] show ?thesis
    using assms(1,2) True
    by (simp add: getVolume_def Let_def split_beta processVolumeAdaptively_isCalibrating)
next
  case False
  then have "fst (getVolume s mode d now rnd) = 0"
    using assms(1,2) by (auto simp: getVolume_def Let_def split_beta)
  with assms(3) show ?thesis by simp
qed

lemma getVolume_completing:
  assumes "isCalibrating s" and "analyser s"
    and "CALIBRATION_DURATION \<le> now - calibrationStartTime s"
  shows "getVolume s Microphone d now rnd
       = processVolumeAdaptively (snd (processCalibration s (rawVolumeOf d) now)) (rawVolumeOf d)"
  using assms processCalibration_complete(1) [OF assms(1,3) refl refl refl, of "rawVolumeOf d"]
  by (simp add: getVolume_def Let_def split_beta)

lemma calibrating_run_state:
  "pipeline_run calibrating_run =
     new_AudioPipeline
       \<lparr> analyser := True, isCalibrating := True, calibrationSamples := [1 / 5, 1 / 5] \<rparr>"
  by (simp add: calibrating_run_def pipeline_run_def initMicrophone_def cleanup_def
      startCalibration_def new_AudioPipeline_def getVolume_def rawVolumeOf_51
      processCalibration_def CALIBRATION_DURATION_def Let_def)

lemma completing_tick:
  "getVolume (pipeline_run calibrating_run) Microphone [255] 1000 0 =
     (4 / 5,
      new_AudioPipeline
        \<lparr> analyser := True, calibrationSamples := [1 / 5, 1 / 5, 1],
          baselineNoise := 1 / 5, dynamicSensitivityThreshold := 23 / 100,
          dynamicLoudThreshold := 35 / 100, dynamicVeryLoudThreshold := 55 / 100,
          adaptiveGain := 1, volumeHistory := [1] \<rparr>)"
  unfolding calibrating_run_state
  by (simp add: getVolume_def rawVolumeOf_255 new_AudioPipeline_def
      processCalibration_def CALIBRATION_DURATION_def Let_def processVolumeAdaptively_def
      VOLUME_HISTORY_SIZE_def)

text \<open>
  C5, as the code has it. On a microphone or assistant tick (any mode but test) that
  finds calibration in progress: while the calibration window has not elapsed the
  tick returns 0 and calibration stays in progress; a nonzero volume is returned only
  by a tick on which the window has elapsed and calibration has completed; and the
  microphone tick that completes calibration does not return 0 but the adaptively
  processed volume of its own sample, under the calibration it has just derived.
\<close>

theorem getVolume_silent_until_calibrated:
  assumes "isCalibrating s" and "mode \<noteq> Test"
  shows "(now - calibrationStartTime s < CALIBRATION_DURATION
           \<longrightarrow> fst (getVolume s mode d now rnd) = 0
               \<and> isCalibrating (snd (getVolume s mode d now rnd)))
       \<and> (fst (getVolume s mode d now rnd) \<noteq> 0
           \<longrightarrow> CALIBRATION_DURATION \<le> now - calibrationStartTime s
               \<and> \<not> isCalibrating (snd (getVolume s mode d now rnd)))
       \<and> (CALIBRATION_DURATION \<le> now - calibrationStartTime s \<and> mode = Microphone \<and> analyser s
           \<longrightarrow> getVolume s mode d now rnd
               = processVolumeAdaptively (snd (processCalibration s (rawVolumeOf d) now))
                   (rawVolumeOf d))"
  using getVolume_in_window [OF assms] getVolume_nonzero [OF assms]
    getVolume_completing [OF assms(1)]
  by blast

theorem getVolume_silent_until_calibrated_witness:
  "isCalibrating (pipeline_run calibrating_run) \<and> Microphone \<noteq> Test
   \<and> 30 - calibrationStartTime (pipeline_run calibrating_run) < CALIBRATION_DURATION
   \<and> fst (getVolume (pipeline_run calibrating_run) Microphone [51] 30 0) = 0
   \<and> isCalibrating (snd (getVolume (pipeline_run calibrating_run) Microphone [51] 30 0))
   \<and> fst (getVolume (pipeline_run calibrating_run) Microphone [255] 1000 0) \<noteq> 0
   \<and> CALIBRATION_DURATION \<le> 1000 - calibrationStartTime (pipeline_run calibrating_run)
   \<and> \<not> isCalibrating (snd (getVolume (pipeline_run calibrating_run) Microphone [255] 1000 0))
   \<and> analyser (pipeline_run calibrating_run)
   \<and> getVolume (pipeline_run calibrating_run) Microphone [255] 1000 0
       = processVolumeAdaptively
           (snd (processCalibration (pipeline_run calibrating_run) (rawVolumeOf [255]) 1000))
           (rawVolumeOf [255])"
proof -
  have cal: "isCalibrating (pipeline_run calibrating_run)"
    and an: "analyser (pipeline_run calibrating_run)"
    and early: "30 - calibrationStartTime (pipeline_run calibrating_run) < CALIBRATION_DURATION"
    by (simp_all add: calibrating_run_state new_AudioPipeline_def CALIBRATION_DURATION_def)
  have mode: "Microphone \<noteq> Test" by simp
  have loud: "fst (getVolume (pipeline_run calibrating_run) Microphone [255] 1000 0) \<noteq> 0"
    by (simp add: completing_tick)
  show ?thesis
    using cal an early mode loud
      getVolume_silent_until_calibrated [OF cal mode, of 30 "[51]" 0]
      getVolume_silent_until_calibrated [OF cal mode, of 1000 "[255]" 0]
    by blast
qed

text \<open>
  C5 as stated fails on the completing tick: 1000 ms into a calibration that is still
  in progress when the sample is observed, the tick returns 0.8, not 0.
\<close>

theorem getVolume_silent_until_calibrated_counterexample:
  "isCalibrating (pipeline_run calibrating_run)
   \<and> fst (getVolume (pipeline_run calibrating_run) Microphone [255] 1000 0) = 4 / 5"
  by (simp add: completing_tick) (simp add: calibrating_run_state)

section \<open>The volume history\<close>

lemma processVolumeAdaptively_history:
  assumes "length (volumeHistory s) \<le> VOLUME_HISTORY_SIZE"
  shows "volumeHistory (snd (processVolumeAdaptively s rawVolume))
           = (if length (volumeHistory s) < VOLUME_HISTORY_SIZE
              then volumeHistory s @ [rawVolume]
              else tl (volumeHistory s) @ [rawVolume])"
proof -
  have "length (volumeHistory s) = VOLUME_HISTORY_SIZE \<Longrightarrow> volumeHistory s \<noteq> []"
    by (auto simp: VOLUME_HISTORY_SIZE_def)
  then show ?thesis
    using assms by (auto simp: processVolumeAdaptively_def Let_def)
qed

lemma processVolumeAdaptively_history_length:
  assumes "length (volumeHistory s) \<le> VOLUME_HISTORY_SIZE"
  shows "length (volumeHistory (snd (processVolumeAdaptively s rawVolume))) \<le> VOLUME_HISTORY_SIZE"
  unfolding processVolumeAdaptively_history [OF assms] using assms
  by (simp add: VOLUME_HISTORY_SIZE_def)

lemma processCalibration_history:
  "volumeHistory (snd (processCalibration s v now)) = volumeHistory s"
  by (simp add: processCalibration_def Let_def)

lemma getVolume_history_length:
  assumes "length (volumeHistory s) \<le> VOLUME_HISTORY_SIZE"
  shows "length (volumeHistory (snd (getVolume s mode d now rnd))) \<le> VOLUME_HISTORY_SIZE"
  using assms processVolumeAdaptively_history_length [of s "rawVolumeOf d"]
    processVolumeAdaptively_history_length
      [of "snd (processCalibration s (rawVolumeOf d) now)" "rawVolumeOf d"]
  by (simp add: getVolume_def Let_def split_beta processCalibration_history)

lemma pipeline_step_history_length:
  "length (volumeHistory s) \<le> VOLUME_HISTORY_SIZE
   \<Longrightarrow> length (volumeHistory (pipeline_step s c)) \<le> VOLUME_HISTORY_SIZE"
  by (cases c)
    (simp_all add: getVolume_history_length,
     simp_all add: initMicrophone_def initAssistant_def cleanup_def startCalibration_def)

lemma foldl_history_length:
  "length (volumeHistory s) \<le> VOLUME_HISTORY_SIZE
   \<Longrightarrow> length (volumeHistory (foldl pipeline_step s calls)) \<le> VOLUME_HISTORY_SIZE"
  by (induction calls arbitrary: s) (simp_all add: pipeline_step_history_length)

lemma pipeline_run_history_length:
  "length (volumeHistory (pipeline_run calls)) \<le> VOLUME_HISTORY_SIZE"
  unfolding pipeline_run_def by (rule foldl_history_length) (simp add: new_AudioPipeline_def)

text \<open>
  C6, as the code has it. The element that the per-tick volume processing stores in the
  volume history is the raw volume it was given, before the baseline is subtracted:
  the new history is the old one with the raw volume appended, less its oldest
  element when it already held 100. The history never holds more than 100 elements,
  in any state the pipeline can reach.
\<close>

theorem volumeHistory_stores_raw_volume:
  "length (volumeHistory (pipeline_run calls)) \<le> VOLUME_HISTORY_SIZE
   \<and> VOLUME_HISTORY_SIZE = 100
   \<and> volumeHistory (snd (processVolumeAdaptively (pipeline_run calls) rawVolume))
       = (if length (volumeHistory (pipeline_run calls)) < VOLUME_HISTORY_SIZE
          then volumeHistory (pipeline_run calls) @ [rawVolume]
          else tl (volumeHistory (pipeline_run calls)) @ [rawVolume])
   \<and> last (volumeHistory (snd (processVolumeAdaptively (pipeline_run calls) rawVolume)))
       = rawVolume
   \<and> length (volumeHistory (snd (processVolumeAdaptively (pipeline_run calls) rawVolume)))
       \<le> VOLUME_HISTORY_SIZE"
proof -
  note len = pipeline_run_history_length [of calls]
  note h = processVolumeAdaptively_history [OF len, of rawVolume]
  have "last (volumeHistory (snd (processVolumeAdaptively (pipeline_run calls) rawVolume)))
          = rawVolume"
    unfolding h by simp
  then show ?thesis
    using len h processVolumeAdaptively_history_length [OF len, of rawVolume]
    by (simp add: VOLUME_HISTORY_SIZE_def)
qed

text \<open>
  C6 as stated fails: after the completing tick of \<open>completed_run\<close> the baseline is 0.2
  and the history holds the raw volume 1 of that tick, not its post-baseline volume
  0.8.
\<close>

theorem volumeHistory_stores_raw_volume_counterexample:
  "volumeHistory (pipeline_run completed_run) = [1]
   \<and> baselineNoise (pipeline_run completed_run) = 1 / 5
   \<and> max 0 (1 - baselineNoise (pipeline_run completed_run)) = 4 / 5"
proof -
  have "pipeline_run completed_run
          = snd (getVolume (pipeline_run calibrating_run) Microphone [255] 1000 0)"
    by (simp add: completed_run_def pipeline_run_def)
  then show ?thesis
    by (simp add: completing_tick)
qed

section \<open>The force field\<close>

lemma getInfluenceAt_sum:
  "foldl (\<lambda>totalInfluence force. totalInfluence + influenceOf a force) acc fs
     = acc + sum_list (map (influenceOf a) fs)"
  by (induction fs arbitrary: acc) simp_all

lemma getInfluenceAt_sum_list:
  "getInfluenceAt fs a = sum_list (map (influenceOf a) (forces fs))"
  by (simp add: getInfluenceAt_def getInfluenceAt_sum)

lemma getInfluenceAt_no_forces: "forces fs = [] \<Longrightarrow> getInfluenceAt fs a = 0"
  by (simp add: getInfluenceAt_def)

lemma random_in_range_examples:
  "draws_in_range burst" "list_all random_in_range wrap_calls"
  "list_all random_in_range quiet_calls" "list_all fade_in_range quiet_calls"
  by (simp_all add: burst_def draws_in_range_def wrap_calls_def quiet_calls_def list_all_iff)

lemma wrap_forces:
  "forces (force_run (1 / 20) wrap_calls) =
     [\<lparr> angle = 9999 / 10000 * pi * 2 + 5 / 1000, strength = 35, life = 986 / 1000,
        decay = 14 / 1000, speed = 1, distance = 1, maxDistance = 50 \<rparr>]"
  by (simp add: wrap_calls_def force_run_def new_ForceSystem_def update_def burst_def
     newForce_def decayForce_def Let_def)

lemma quiet_life: "map life (forces (force_run (1 / 20) quiet_calls)) = [- (29 / 1000)]"
  by (simp add: quiet_calls_def force_run_def new_ForceSystem_def update_def burst_def
     newForce_def decayForce_def Let_def eval_nat_numeral)

subsection \<open>Impulses push outward\<close>

lemma force_shape_newForce:
  "threshold < vol \<Longrightarrow> 0 \<le> r_speed d \<Longrightarrow> force_shape (newForce vol threshold d)"
  by (simp add: force_shape_def newForce_def)

lemma force_shape_decayForce:
  "force_shape f \<Longrightarrow> force_shape (decayForce vol threshold fade f)"
  by (simp add: force_shape_def decayForce_def Let_def)

lemma force_shape_update:
  assumes "list_all force_shape (forces fs)" and "draws_in_range d"
  shows "list_all force_shape (forces (update fs vol threshold d))"
proof -
  have live: "list_all force_shape (filter (\<lambda>force. life force > 0) (forces fs))"
    using assms(1) by (simp add: list_all_iff)
  have new: "threshold < vol \<Longrightarrow> force_shape (newForce vol threshold d)"
    using assms(2) by (simp add: force_shape_newForce draws_in_range_def)
  show ?thesis
    using live new
    by (simp add: update_def Let_def list_all_iff force_shape_decayForce)
qed

lemma force_shape_step:
  "list_all force_shape (forces fs) \<Longrightarrow> random_in_range c
   \<Longrightarrow> list_all force_shape (forces (force_step fs c))"
  by (cases c) (simp_all add: force_shape_update setFadeMultiplier_def clear_def)

lemma force_shape_foldl:
  "list_all force_shape (forces fs) \<Longrightarrow> list_all random_in_range calls
   \<Longrightarrow> list_all force_shape (forces (foldl force_step fs calls))"
  by (induction calls arbitrary: fs) (simp_all add: force_shape_step)

lemma force_shape_run:
  "list_all random_in_range calls \<Longrightarrow> list_all force_shape (forces (force_run sens calls))"
  unfolding force_run_def by (rule force_shape_foldl) (simp_all add: new_ForceSystem_def)

lemma influenceOf_nonneg:
  assumes "force_shape f" and "0 \<le> life f"
  shows "0 \<le> influenceOf a f"
proof -
  let ?x = "(distance f / maxDistance f) * pi"
  have r: "0 \<le> distance f / maxDistance f" "distance f / maxDistance f \<le> 1"
    using assms(1) by (simp_all add: force_shape_def)
  have "0 \<le> ?x"
    using r(1) pi_ge_zero by (rule mult_nonneg_nonneg)
  moreover have "?x \<le> 1 * pi"
    using r(2) pi_ge_zero by (rule mult_right_mono)
  ultimately have "0 \<le> ?x" and "?x \<le> pi"
    by simp_all
  then have s: "0 \<le> sin ?x" by (rule sin_ge_zero)
  have "0 \<le> strength f * life f"
    using assms by (simp add: force_shape_def)
  then have "0 \<le> strength f * life f
               * max 0 (1 - (if \<bar>a - angle f\<bar> > pi then pi * 2 - \<bar>a - angle f\<bar>
                             else \<bar>a - angle f\<bar>) / (pi * (4 / 10)))"
    by (rule mult_nonneg_nonneg) simp
  then show ?thesis
    unfolding influenceOf_def Let_def using s by (rule mult_nonneg_nonneg)
qed

text \<open>
  C10. In every force system reached from the constructor by \<open>update\<close>,
  \<open>setFadeMultiplier\<close> and \<open>clear\<close> calls (the random draws being in [0,1)), if every
  force in the collection has a life of at least 0 then the influence at every angle
  is at least 0.
\<close>

theorem getInfluenceAt_nonneg:
  assumes "list_all random_in_range calls"
    and "list_all (\<lambda>f. 0 \<le> life f) (forces (force_run sens calls))"
  shows "0 \<le> getInfluenceAt (force_run sens calls) a"
proof -
  have "list_all force_shape (forces (force_run sens calls))"
    using assms(1) by (rule force_shape_run)
  then have "\<forall>f \<in> set (forces (force_run sens calls)). 0 \<le> influenceOf a f"
    using assms(2) by (simp add: list_all_iff influenceOf_nonneg)
  then show ?thesis
    unfolding getInfluenceAt_sum_list by (intro sum_list_nonneg) auto
qed

theorem getInfluenceAt_nonneg_witness:
  "list_all random_in_range wrap_calls
   \<and> list_all (\<lambda>f. 0 \<le> life f) (forces (force_run (1 / 20) wrap_calls))
   \<and> 0 \<le> getInfluenceAt (force_run (1 / 20) wrap_calls) 1"
proof -
  have alive: "list_all (\<lambda>f. 0 \<le> life f) (forces (force_run (1 / 20) wrap_calls))"
    unfolding wrap_forces by simp
  show ?thesis
    using alive random_in_range_examples(2)
      getInfluenceAt_nonneg [OF random_in_range_examples(2) alive, of 1]
    by simp
qed

subsection \<open>The life of a retained force\<close>

lemma decayForce_aged:
  assumes "0 < life f" and "life f \<le> 1" and "0 \<le> decay f" and "decay f < 2 / 100"
    and "0 \<le> fade" and "fade \<le> 1"
  shows "aged_bounds (decayForce vol threshold fade f)"
proof -
  define k where "k = (if vol < threshold then 5 / 2 else 1) + (1 - fade) * 2"
  have k: "0 \<le> k" "k \<le> 9 / 2"
    using assms(5,6) by (simp_all add: k_def)
  have lo: "0 \<le> decay f * k"
    using assms(3) k(1) by (rule mult_nonneg_nonneg)
  have "decay f * k \<le> decay f * (9 / 2)"
    using k(2) assms(3) by (rule mult_left_mono)
  also have "\<dots> < 9 / 100"
    using assms(4) by simp
  finally have hi: "decay f * k < 9 / 100" .
  have "life (decayForce vol threshold fade f) = life f - decay f * k"
    by (simp add: decayForce_def k_def Let_def)
  moreover have "decay (decayForce vol threshold fade f) = decay f"
    by (simp add: decayForce_def Let_def)
  ultimately show ?thesis
    using lo hi assms(1-4) by (simp add: aged_bounds_def)
qed

lemma aged_bounds_newForce:
  "0 \<le> r_decay d \<Longrightarrow> r_decay d < 1 \<Longrightarrow> 0 \<le> fade \<Longrightarrow> fade \<le> 1
   \<Longrightarrow> aged_bounds (decayForce vol threshold fade (newForce vol threshold d))"
  by (rule decayForce_aged) (simp_all add: newForce_def)

lemma aged_bounds_update:
  assumes "list_all aged_bounds (forces fs)" and "draws_in_range d" and "fade_ok fs"
  shows "list_all aged_bounds (forces (update fs vol threshold d))"
proof -
  have fade: "0 \<le> fs_fadeMultiplier fs" "fs_fadeMultiplier fs \<le> 1"
    using assms(3) by (simp_all add: fade_ok_def)
  have live: "\<forall>f \<in> set (filter (\<lambda>force. life force > 0) (forces fs)).
                aged_bounds (decayForce vol threshold (fs_fadeMultiplier fs) f)"
  proof
    fix f
    assume "f \<in> set (filter (\<lambda>force. life force > 0) (forces fs))"
    then have mem: "f \<in> set (forces fs)" and pos: "0 < life f"
      by simp_all
    from mem have "aged_bounds f"
      using assms(1) by (simp add: list_all_iff)
    then show "aged_bounds (decayForce vol threshold (fs_fadeMultiplier fs) f)"
      using pos fade by (intro decayForce_aged) (simp_all add: aged_bounds_def)
  qed
  have new: "aged_bounds (decayForce vol threshold (fs_fadeMultiplier fs) (newForce vol threshold d))"
    using assms(2) fade by (intro aged_bounds_newForce) (simp_all add: draws_in_range_def)
  show ?thesis
    using live new by (simp add: update_def Let_def list_all_iff)
qed

lemma aged_bounds_step:
  assumes "list_all aged_bounds (forces fs) \<and> fade_ok fs"
    and "random_in_range c" and "fade_in_range c"
  shows "list_all aged_bounds (forces (force_step fs c)) \<and> fade_ok (force_step fs c)"
proof (cases c)
  case (Update vol threshold d)
  have "fs_fadeMultiplier (update fs vol threshold d) = fs_fadeMultiplier fs"
    by (simp add: update_def Let_def)
  then show ?thesis
    using assms Update aged_bounds_update [of fs d vol threshold]
    by (simp add: fade_ok_def)
next
  case (SetFadeMultiplier fade)
  then show ?thesis using assms by (simp add: setFadeMultiplier_def fade_ok_def)
next
  case Clear
  then show ?thesis using assms by (simp add: clear_def fade_ok_def)
qed

lemma aged_bounds_foldl:
  "list_all aged_bounds (forces fs) \<and> fade_ok fs \<Longrightarrow> list_all random_in_range calls
   \<Longrightarrow> list_all fade_in_range calls
   \<Longrightarrow> list_all aged_bounds (forces (foldl force_step fs calls))
       \<and> fade_ok (foldl force_step fs calls)"
proof (induction calls arbitrary: fs)
  case Nil
  then show ?case by simp
next
  case (Cons c calls)
  have "list_all aged_bounds (forces (force_step fs c)) \<and> fade_ok (force_step fs c)"
    using Cons.prems by (intro aged_bounds_step) simp_all
  then show ?case
    using Cons.prems Cons.IH [of "force_step fs c"] by simp
qed

text \<open>
  C8, as the code has it. \<open>update\<close> drops the forces whose life is at most 0 before it
  ages the others, so a force can leave \<open>update\<close> with a negative life and stays in
  the collection until the next call. With random draws in [0,1) and fade multipliers
  in [0,1], every force in the collection after any sequence of calls has a life above
  -0.09 and at most 1.
\<close>

theorem update_life_bounds:
  assumes "list_all random_in_range calls" and "list_all fade_in_range calls"
  shows "list_all (\<lambda>f. - (9 / 100) < life f \<and> life f \<le> 1) (forces (force_run sens calls))"
proof -
  have "list_all aged_bounds (forces (new_ForceSystem sens)) \<and> fade_ok (new_ForceSystem sens)"
    by (simp add: new_ForceSystem_def fade_ok_def)
  then have "list_all aged_bounds (forces (force_run sens calls))"
    unfolding force_run_def using assms aged_bounds_foldl by blast
  then show ?thesis
    by (simp add: list_all_iff aged_bounds_def)
qed

theorem update_life_bounds_witness:
  "list_all random_in_range quiet_calls \<and> list_all fade_in_range quiet_calls
   \<and> list_all (\<lambda>f. - (9 / 100) < life f \<and> life f \<le> 1)
       (forces (force_run (1 / 20) quiet_calls))"
  using update_life_bounds [OF random_in_range_examples(3,4), of "1 / 20"]
    random_in_range_examples(3,4)
  by simp

text \<open>
  C8 as stated fails: after one loud tick and 29 silent ticks the collection still holds
  the force created on the first tick, with the life -0.029.
\<close>

theorem update_life_bounds_counterexample:
  "list_all random_in_range quiet_calls \<and> list_all fade_in_range quiet_calls
   \<and> map life (forces (force_run (1 / 20) quiet_calls)) = [- (29 / 1000)]"
  using random_in_range_examples(3,4) quiet_life by simp

subsection \<open>Across the wraparound\<close>

text \<open>
  Where every force's angle lies in \<open>[0, 2 * pi]\<close> the angular distance is the shorter
  arc and the influence at 0 and at \<open>2 * pi\<close> agree.
\<close>

lemma influenceOf_wrap_in_range:
  assumes "0 \<le> angle f" and "angle f \<le> 2 * pi"
  shows "influenceOf 0 f = influenceOf (2 * pi) f"
proof -
  have "(if \<bar>0 - angle f\<bar> > pi then pi * 2 - \<bar>0 - angle f\<bar> else \<bar>0 - angle f\<bar>)
      = (if \<bar>2 * pi - angle f\<bar> > pi then pi * 2 - \<bar>2 * pi - angle f\<bar>
         else \<bar>2 * pi - angle f\<bar>)"
    using assms by (cases "angle f > pi"; cases "angle f = pi") simp_all
  then show ?thesis
    unfolding influenceOf_def Let_def by simp
qed

lemma getInfluenceAt_wrap_in_range:
  assumes "\<forall>f \<in> set (forces fs). 0 \<le> angle f \<and> angle f \<le> 2 * pi"
  shows "getInfluenceAt fs 0 = getInfluenceAt fs (2 * pi)"
proof -
  have "map (influenceOf 0) (forces fs) = map (influenceOf (2 * pi)) (forces fs)"
    using assms by (simp add: influenceOf_wrap_in_range)
  then show ?thesis
    unfolding getInfluenceAt_sum_list by (rule arg_cong)
qed

text \<open>
  \<open>update\<close> adds 0.005 to every angle and never reduces it, so a force created just
  below \<open>2 * pi\<close> leaves that range on the tick that creates it. The force of
  \<open>wrap_calls\<close> has the angle \<open>1.9998 * pi + 0.005\<close>. Queried at 0 the difference
  exceeds \<open>pi\<close> and the wrapped value \<open>2 * pi - difference\<close> is negative, which makes
  the falloff larger than 1; queried at \<open>2 * pi\<close> the falloff is smaller than 1.
\<close>

lemma wrap_at_zero:
  "influenceOf 0
     \<lparr> angle = 9999 / 10000 * pi * 2 + 5 / 1000, strength = 35, life = 986 / 1000,
       decay = 14 / 1000, speed = 1, distance = 1, maxDistance = 50 \<rparr>
   = 35 * (986 / 1000)
       * (1 - (pi * 2 - (9999 / 10000 * pi * 2 + 5 / 1000)) / (pi * (4 / 10)))
       * sin (1 / 50 * pi)"
proof -
  have p: "2 \<le> pi" "pi < 4" using pi_ge_two pi_less_4 by simp_all
  have a: "\<bar>0 - (9999 / 10000 * pi * 2 + 5 / 1000)\<bar> = 9999 / 10000 * pi * 2 + 5 / 1000"
    using p by simp
  have b: "9999 / 10000 * pi * 2 + 5 / 1000 > pi" using p by simp
  have "pi * 2 - (9999 / 10000 * pi * 2 + 5 / 1000) \<le> 0" using p by simp
  then have "(pi * 2 - (9999 / 10000 * pi * 2 + 5 / 1000)) / (pi * (4 / 10)) \<le> 0"
    using p by (simp add: divide_le_0_iff)
  then have c: "max 0 (1 - (pi * 2 - (9999 / 10000 * pi * 2 + 5 / 1000)) / (pi * (4 / 10)))
              = 1 - (pi * 2 - (9999 / 10000 * pi * 2 + 5 / 1000)) / (pi * (4 / 10))"
    by linarith
  show ?thesis
    unfolding influenceOf_def Let_def InternalForce.simps a using b c by simp
qed

lemma wrap_at_two_pi:
  "influenceOf (2 * pi)
     \<lparr> angle = 9999 / 10000 * pi * 2 + 5 / 1000, strength = 35, life = 986 / 1000,
       decay = 14 / 1000, speed = 1, distance = 1, maxDistance = 50 \<rparr>
   = 35 * (986 / 1000)
       * (1 - ((9999 / 10000 * pi * 2 + 5 / 1000) - 2 * pi) / (pi * (4 / 10)))
       * sin (1 / 50 * pi)"
proof -
  have p: "2 \<le> pi" "pi < 4" using pi_ge_two pi_less_4 by simp_all
  have a: "\<bar>2 * pi - (9999 / 10000 * pi * 2 + 5 / 1000)\<bar>
         = (9999 / 10000 * pi * 2 + 5 / 1000) - 2 * pi"
    using p by simp
  have b: "\<not> (9999 / 10000 * pi * 2 + 5 / 1000) - 2 * pi > pi" using p by simp
  have "((9999 / 10000 * pi * 2 + 5 / 1000) - 2 * pi) \<le> pi * (4 / 10)" using p by simp
  then have "((9999 / 10000 * pi * 2 + 5 / 1000) - 2 * pi) / (pi * (4 / 10)) \<le> 1"
    using p by (simp add: divide_le_eq)
  then have c: "max 0 (1 - ((9999 / 10000 * pi * 2 + 5 / 1000) - 2 * pi) / (pi * (4 / 10)))
              = 1 - ((9999 / 10000 * pi * 2 + 5 / 1000) - 2 * pi) / (pi * (4 / 10))"
    by linarith
  show ?thesis
    unfolding influenceOf_def Let_def InternalForce.simps a using b c by simp
qed

lemma wrap_gap:
  "35 * (986 / 1000)
     * (1 - ((9999 / 10000 * pi * 2 + 5 / 1000) - 2 * pi) / (pi * (4 / 10)))
     * sin (1 / 50 * pi)
   < 35 * (986 / 1000)
     * (1 - (pi * 2 - (9999 / 10000 * pi * 2 + 5 / 1000)) / (pi * (4 / 10)))
     * sin (1 / 50 * pi)"
proof -
  have p: "2 \<le> pi" "pi < 4" using pi_ge_two pi_less_4 by simp_all
  have s: "0 < sin (1 / 50 * pi)"
    using p by (intro sin_gt_zero) simp_all
  have d: "0 < ((9999 / 10000 * pi * 2 + 5 / 1000) - 2 * pi) / (pi * (4 / 10))"
    using p by (intro divide_pos_pos) simp_all
  have e: "(pi * 2 - (9999 / 10000 * pi * 2 + 5 / 1000)) / (pi * (4 / 10))
         = - (((9999 / 10000 * pi * 2 + 5 / 1000) - 2 * pi) / (pi * (4 / 10)))"
    by (simp add: field_simps)
  have "1 - ((9999 / 10000 * pi * 2 + 5 / 1000) - 2 * pi) / (pi * (4 / 10))
      < 1 - (pi * 2 - (9999 / 10000 * pi * 2 + 5 / 1000)) / (pi * (4 / 10))"
    unfolding e using d by linarith
  then have "35 * (986 / 1000)
               * (1 - ((9999 / 10000 * pi * 2 + 5 / 1000) - 2 * pi) / (pi * (4 / 10)))
      < 35 * (986 / 1000)
               * (1 - (pi * 2 - (9999 / 10000 * pi * 2 + 5 / 1000)) / (pi * (4 / 10)))"
    by (intro mult_strict_left_mono) simp_all
  then show ?thesis
    using s by (rule mult_strict_right_mono)
qed

text \<open>
  C7. With no forces the influence is 0 at every angle (\<open>getInfluenceAt_no_forces\<close>),
  and the influence at 0 and at \<open>2 * pi\<close> agree while all angles are in range
  (\<open>getInfluenceAt_wrap_in_range\<close>). They do not agree on every reachable collection:
  after the one \<open>update\<close> call of \<open>wrap_calls\<close> (draws 0, 0.9999, 0.5, 0.7 at smoothed
  volume 0.58 and threshold 0.08) the influence at \<open>2 * pi\<close> is strictly below the
  influence at 0.
\<close>

theorem getInfluenceAt_wraparound_gap:
  "getInfluenceAt (force_run (1 / 20) wrap_calls) (2 * pi)
     < getInfluenceAt (force_run (1 / 20) wrap_calls) 0"
  unfolding getInfluenceAt_sum_list wrap_forces
  using wrap_gap
  by (simp only: list.map sum_list.Cons sum_list.Nil add_0_right wrap_at_zero wrap_at_two_pi)

section \<open>The fade multiplier\<close>

lemma draw_fields:
  "previousVolumeLevel (draw orb r t n1 n2) = smoothedVolume (draw orb r t n1 n2)"
  "fadeMultiplier (draw orb r t n1 n2) =
     clamp (if smoothedVolume (draw orb r t n1 n2) < previousVolumeLevel orb
            then fadeMultiplier orb * (96 / 100)
            else fadeMultiplier orb + (1 - fadeMultiplier orb) * (15 / 100)) 0 1"
  by (simp_all add: draw_def Let_def)

lemma clamp_unit: "0 \<le> clamp v 0 1 \<and> clamp v 0 1 \<le> 1"
  by (simp add: clamp_def)

lemma clamp_id: "0 \<le> v \<Longrightarrow> v \<le> 1 \<Longrightarrow> clamp v 0 1 = v"
  by (simp add: clamp_def)

lemma orb_inv_draw: "orb_inv (draw orb r t n1 n2)"
  unfolding orb_inv_def using clamp_unit by (simp add: draw_fields)

lemma orb_inv_step: "orb_inv orb \<Longrightarrow> orb_inv (orb_step orb c)"
  by (cases c)
    (simp_all add: orb_inv_draw,
     simp_all add: orb_inv_def resetVisualState_def setOptions_def)

lemma orb_inv_foldl: "orb_inv orb \<Longrightarrow> orb_inv (foldl orb_step orb calls)"
  by (induction calls arbitrary: orb) (simp_all add: orb_inv_step)

lemma orb_inv_run: "orb_inv (orb_run opts calls)"
  unfolding orb_run_def by (rule orb_inv_foldl) (simp add: orb_inv_def new_VoiceOrb_def)

lemma fade_step_down:
  assumes "orb_inv orb" and "smoothedVolume (draw orb r t n1 n2) < smoothedVolume orb"
  shows "fadeMultiplier (draw orb r t n1 n2) = fadeMultiplier orb * (96 / 100)"
proof -
  have "0 \<le> fadeMultiplier orb * (96 / 100)" "fadeMultiplier orb * (96 / 100) \<le> 1"
    using assms(1) by (simp_all add: orb_inv_def)
  then have "clamp (fadeMultiplier orb * (96 / 100)) 0 1 = fadeMultiplier orb * (96 / 100)"
    by (rule clamp_id)
  then show ?thesis
    using assms by (simp add: draw_fields(2) orb_inv_def)
qed

lemma fade_step_up:
  assumes "orb_inv orb" and "smoothedVolume orb < smoothedVolume (draw orb r t n1 n2)"
  shows "fadeMultiplier (draw orb r t n1 n2)
       = fadeMultiplier orb + (1 - fadeMultiplier orb) * (15 / 100)"
proof -
  have "0 \<le> fadeMultiplier orb + (1 - fadeMultiplier orb) * (15 / 100)"
       "fadeMultiplier orb + (1 - fadeMultiplier orb) * (15 / 100) \<le> 1"
    using assms(1) unfolding orb_inv_def by argo+
  then have "clamp (fadeMultiplier orb + (1 - fadeMultiplier orb) * (15 / 100)) 0 1
           = fadeMultiplier orb + (1 - fadeMultiplier orb) * (15 / 100)"
    by (rule clamp_id)
  then show ?thesis
    using assms by (simp add: draw_fields(2) orb_inv_def)
qed

lemma falling_state:
  "orb_run DEFAULT_OPTIONS falling_calls =
     \<lparr> options = DEFAULT_OPTIONS, smoothedVolume = 12 / 100, targetVolume = 1,
       lastAudioTime = 0, fadeMultiplier = 1, previousVolumeLevel = 12 / 100 \<rparr>"
  by (simp add: falling_calls_def orb_run_def new_VoiceOrb_def draw_def Let_def
      DEFAULT_OPTIONS_def easeOutCubic_def clamp_def)

text \<open>
  C9. At every state an orb reaches from its constructor (ticks, stops and option
  changes, with any inputs), the next tick behaves as follows. If it lowers
  \<open>smoothedVolume\<close>, \<open>fadeMultiplier\<close> does not increase. If it raises \<open>smoothedVolume\<close>,
  \<open>fadeMultiplier\<close> does not decrease, stays at most 1, and its distance to 1 shrinks by
  the factor 0.85. As this holds tick by tick, it holds across every run of falling
  ticks and every run of rising ticks.
\<close>

theorem fadeMultiplier_follows_volume:
  "(smoothedVolume (draw (orb_run opts calls) r t n1 n2) < smoothedVolume (orb_run opts calls)
      \<longrightarrow> fadeMultiplier (draw (orb_run opts calls) r t n1 n2)
            \<le> fadeMultiplier (orb_run opts calls))
   \<and> (smoothedVolume (orb_run opts calls) < smoothedVolume (draw (orb_run opts calls) r t n1 n2)
      \<longrightarrow> fadeMultiplier (orb_run opts calls)
            \<le> fadeMultiplier (draw (orb_run opts calls) r t n1 n2)
          \<and> fadeMultiplier (draw (orb_run opts calls) r t n1 n2) \<le> 1
          \<and> 1 - fadeMultiplier (draw (orb_run opts calls) r t n1 n2)
              = (85 / 100) * (1 - fadeMultiplier (orb_run opts calls)))"
proof -
  let ?orb = "orb_run opts calls"
  have inv: "orb_inv ?orb" by (rule orb_inv_run)
  then have range: "0 \<le> fadeMultiplier ?orb" "fadeMultiplier ?orb \<le> 1"
    by (simp_all add: orb_inv_def)
  show ?thesis
  proof (intro conjI impI)
    assume "smoothedVolume (draw ?orb r t n1 n2) < smoothedVolume ?orb"
    then have "fadeMultiplier (draw ?orb r t n1 n2) = fadeMultiplier ?orb * (96 / 100)"
      using inv by (intro fade_step_down)
    then show "fadeMultiplier (draw ?orb r t n1 n2) \<le> fadeMultiplier ?orb"
      using range by simp
  next
    assume up: "smoothedVolume ?orb < smoothedVolume (draw ?orb r t n1 n2)"
    have eq: "fadeMultiplier (draw ?orb r t n1 n2)
            = fadeMultiplier ?orb + (1 - fadeMultiplier ?orb) * (15 / 100)"
      using inv up by (intro fade_step_up)
    show "fadeMultiplier ?orb \<le> fadeMultiplier (draw ?orb r t n1 n2)"
      unfolding eq using range by simp
    show "fadeMultiplier (draw ?orb r t n1 n2) \<le> 1"
      unfolding eq using range by argo
    show "1 - fadeMultiplier (draw ?orb r t n1 n2) = (85 / 100) * (1 - fadeMultiplier ?orb)"
      unfolding eq by argo
  qed
qed

theorem fadeMultiplier_follows_volume_witness:
  "smoothedVolume (draw (orb_run DEFAULT_OPTIONS falling_calls) 0 (8 / 100) 16 16)
     < smoothedVolume (orb_run DEFAULT_OPTIONS falling_calls)
   \<and> fadeMultiplier (draw (orb_run DEFAULT_OPTIONS falling_calls) 0 (8 / 100) 16 16)
     \<le> fadeMultiplier (orb_run DEFAULT_OPTIONS falling_calls)
   \<and> smoothedVolume (orb_run DEFAULT_OPTIONS rising_calls)
     < smoothedVolume (draw (orb_run DEFAULT_OPTIONS rising_calls) 1 (8 / 100) 0 0)
   \<and> fadeMultiplier (orb_run DEFAULT_OPTIONS rising_calls)
     \<le> fadeMultiplier (draw (orb_run DEFAULT_OPTIONS rising_calls) 1 (8 / 100) 0 0)
   \<and> fadeMultiplier (draw (orb_run DEFAULT_OPTIONS rising_calls) 1 (8 / 100) 0 0) \<le> 1
   \<and> 1 - fadeMultiplier (draw (orb_run DEFAULT_OPTIONS rising_calls) 1 (8 / 100) 0 0)
       = (85 / 100) * (1 - fadeMultiplier (orb_run DEFAULT_OPTIONS rising_calls))"
proof -
  have down: "smoothedVolume (draw (orb_run DEFAULT_OPTIONS falling_calls) 0 (8 / 100) 16 16)
     < smoothedVolume (orb_run DEFAULT_OPTIONS falling_calls)"
    unfolding falling_state by (simp add: draw_def Let_def DEFAULT_OPTIONS_def)
  have up: "smoothedVolume (orb_run DEFAULT_OPTIONS rising_calls)
     < smoothedVolume (draw (orb_run DEFAULT_OPTIONS rising_calls) 1 (8 / 100) 0 0)"
    by (simp add: rising_calls_def orb_run_def new_VoiceOrb_def draw_def Let_def
        DEFAULT_OPTIONS_def easeOutCubic_def)
  show ?thesis
    using down up
      fadeMultiplier_follows_volume [of DEFAULT_OPTIONS falling_calls 0 "8 / 100" 16 16]
      fadeMultiplier_follows_volume [of DEFAULT_OPTIONS rising_calls 1 "8 / 100" 0 0]
    by blast
qed

end
